theory Spec2Isabelle
  imports Main
begin

section \<open>Rock-Paper-Scissors-Plus referee: the tools of \<open>src/Game/rps_plus_referee.py\<close>\<close>

subsection \<open>Python values, dictionaries and exceptions\<close>

text \<open>
  The tools exchange dictionaries with string keys whose values are strings, integers or
  booleans. A dictionary is a map from keys to values. Python's \<open>str\<close> is a sequence of
  code points; the model uses \<open>string\<close>, whose characters are the code points
  U+0000 to U+00FF, so the builtins \<open>str.strip\<close> and \<open>str.lower\<close> are modelled on
  that range (for the text outside it, the model says nothing).
\<close>

datatype pyval = PInt int | PBool bool | PStr string

type_synonym pydict = "string \<rightharpoonup> pyval"

datatype error = KeyError string | TypeError

text \<open>\<open>a + v\<close> for an integer \<open>a\<close>: \<open>bool\<close> is a subclass of \<open>int\<close>, a string raises.\<close>

fun int_add :: "int \<Rightarrow> pyval \<Rightarrow> error + int" where
  "int_add a (PInt n) = Inr (a + n)"
| "int_add a (PBool b) = Inr (a + (if b then 1 else 0))"
| "int_add a (PStr s) = Inl TypeError"

subsection \<open>The builtins \<open>str.strip\<close> and \<open>str.lower\<close>\<close>

text \<open>
  The white space of \<open>str.strip()\<close> below U+0100: U+0009 to U+000D, U+001C to U+0020,
  U+0085 and U+00A0.
\<close>

definition isspace :: "char \<Rightarrow> bool" where
  "isspace c =
     (let n = (of_char c :: nat)
      in (9 \<le> n \<and> n \<le> 13) \<or> (28 \<le> n \<and> n \<le> 32) \<or> n = 133 \<or> n = 160)"

definition strip :: "string \<Rightarrow> string" where
  "strip s = rev (dropWhile isspace (rev (dropWhile isspace s)))"

text \<open>
  \<open>str.lower()\<close> below U+0100: the letters A to Z, and U+00C0 to U+00DE without the
  multiplication sign U+00D7, move up by 32; every other character stays.
\<close>

definition lower_char :: "char \<Rightarrow> char" where
  "lower_char c =
     (let n = (of_char c :: nat)
      in if (65 \<le> n \<and> n \<le> 90) \<or> (192 \<le> n \<and> n \<le> 222 \<and> n \<noteq> 215)
         then char_of (n + 32) else c)"

definition lower :: "string \<Rightarrow> string" where
  "lower s = map lower_char s"

subsection \<open>The game state\<close>

record GameState =
  round_number :: int
  user_score :: int
  bot_score :: int
  user_bomb_used :: bool
  bot_bomb_used :: bool
  game_over :: bool

text \<open>\<open>GameState()\<close>: every field at its default.\<close>

definition new_GameState :: GameState where
  "new_GameState =
     \<lparr>round_number = 0, user_score = 0, bot_score = 0,
      user_bomb_used = False, bot_bomb_used = False, game_over = False\<rparr>"

text \<open>
  The tools read and write the module's global \<open>_game_state\<close>. In the model every tool
  that touches it takes the state and returns the state it leaves behind, next to its
  result.
\<close>

subsection \<open>\<open>validate_and_normalize_input\<close>\<close>

definition valid_moves :: "string list" where
  "valid_moves = [''rock'', ''paper'', ''scissors'', ''bomb'']"

definition validate_and_normalize_input :: "GameState \<Rightarrow> string \<Rightarrow> GameState \<times> pydict" where
  "validate_and_normalize_input st user_input =
     (let normalized = lower (strip user_input)
      in if normalized \<notin> set valid_moves then
           (st, [''normalized_move'' \<mapsto> PStr ''invalid'',
                 ''status'' \<mapsto> PStr ''Invalid move. Must be one of: rock, paper, scissors, bomb.''])
         else if normalized = ''bomb'' \<and> user_bomb_used st then
           (st, [''normalized_move'' \<mapsto> PStr ''invalid'',
                 ''status'' \<mapsto> PStr ''Bomb already used. Cannot use bomb again.''])
         else
           (st, [''normalized_move'' \<mapsto> PStr normalized,
                 ''status'' \<mapsto> PStr ''valid'']))"

subsection \<open>\<open>resolve_round_outcome\<close>\<close>

definition win_conditions :: "string \<times> string \<rightharpoonup> string" where
  "win_conditions =
     [(''rock'', ''scissors'') \<mapsto> ''User wins this round.'',
      (''scissors'', ''paper'') \<mapsto> ''User wins this round.'',
      (''paper'', ''rock'') \<mapsto> ''User wins this round.'']"

definition resolve_round_outcome :: "string \<Rightarrow> string \<Rightarrow> pydict" where
  "resolve_round_outcome user_move bot_move =
     (if user_move = ''invalid'' then
        [''result'' \<mapsto> PStr ''invalid'',
         ''winner'' \<mapsto> PStr ''bot'',
         ''message'' \<mapsto> PStr ''Invalid input. Round forfeited.'',
         ''user_score_delta'' \<mapsto> PInt 0,
         ''bot_score_delta'' \<mapsto> PInt 0]
      else if user_move = bot_move then
        [''result'' \<mapsto> PStr ''draw'',
         ''winner'' \<mapsto> PStr ''none'',
         ''message'' \<mapsto> PStr ''Draw.'',
         ''user_score_delta'' \<mapsto> PInt 0,
         ''bot_score_delta'' \<mapsto> PInt 0]
      else if user_move = ''bomb'' then
        [''result'' \<mapsto> PStr ''win'',
         ''winner'' \<mapsto> PStr ''user'',
         ''message'' \<mapsto> PStr ''User wins this round (bomb beats all).'',
         ''user_score_delta'' \<mapsto> PInt 1,
         ''bot_score_delta'' \<mapsto> PInt 0]
      else if bot_move = ''bomb'' then
        [''result'' \<mapsto> PStr ''win'',
         ''winner'' \<mapsto> PStr ''bot'',
         ''message'' \<mapsto> PStr ''Bot wins this round (bomb beats all).'',
         ''user_score_delta'' \<mapsto> PInt 0,
         ''bot_score_delta'' \<mapsto> PInt 1]
      else
        (case win_conditions (user_move, bot_move) of
           Some msg \<Rightarrow>
             [''result'' \<mapsto> PStr ''win'',
              ''winner'' \<mapsto> PStr ''user'',
              ''message'' \<mapsto> PStr msg,
              ''user_score_delta'' \<mapsto> PInt 1,
              ''bot_score_delta'' \<mapsto> PInt 0]
         | None \<Rightarrow>
             [''result'' \<mapsto> PStr ''win'',
              ''winner'' \<mapsto> PStr ''bot'',
              ''message'' \<mapsto> PStr ''Bot wins this round.'',
              ''user_score_delta'' \<mapsto> PInt 0,
              ''bot_score_delta'' \<mapsto> PInt 1]))"

subsection \<open>\<open>update_game_state\<close> and \<open>get_current_state\<close>\<close>

text \<open>The dictionary both tools return: one key for each field of the state.\<close>

definition state_dict :: "GameState \<Rightarrow> pydict" where
  "state_dict st =
     [''round_number'' \<mapsto> PInt (round_number st),
      ''user_score'' \<mapsto> PInt (user_score st),
      ''bot_score'' \<mapsto> PInt (bot_score st),
      ''user_bomb_used'' \<mapsto> PBool (user_bomb_used st),
      ''bot_bomb_used'' \<mapsto> PBool (bot_bomb_used st),
      ''game_over'' \<mapsto> PBool (game_over st)]"

text \<open>
  The statements run in the source's order, so an exception of a dictionary without a
  delta (\<open>KeyError\<close>) or with a string for one (\<open>TypeError\<close>) leaves the state with the
  assignments made before it. The first component of the result is the state after the
  call, the second the exception or the returned dictionary.
\<close>

definition update_game_state ::
  "GameState \<Rightarrow> string \<Rightarrow> string \<Rightarrow> pydict \<Rightarrow> GameState \<times> (error + pydict)" where
  "update_game_state st user_move bot_move outcome =
     (let s1 = st\<lparr>round_number := round_number st + 1\<rparr>
      in case outcome ''user_score_delta'' of
           None \<Rightarrow> (s1, Inl (KeyError ''user_score_delta''))
         | Some ud \<Rightarrow>
            (case int_add (user_score s1) ud of
               Inl e \<Rightarrow> (s1, Inl e)
             | Inr us \<Rightarrow>
                (let s2 = s1\<lparr>user_score := us\<rparr>
                 in case outcome ''bot_score_delta'' of
                      None \<Rightarrow> (s2, Inl (KeyError ''bot_score_delta''))
                    | Some bd \<Rightarrow>
                       (case int_add (bot_score s2) bd of
                          Inl e \<Rightarrow> (s2, Inl e)
                        | Inr bs \<Rightarrow>
                           (let s3 = s2\<lparr>bot_score := bs\<rparr>;
                                s4 = (if user_move = ''bomb''
                                      then s3\<lparr>user_bomb_used := True\<rparr> else s3);
                                s5 = (if bot_move = ''bomb''
                                      then s4\<lparr>bot_bomb_used := True\<rparr> else s4);
                                s6 = (if round_number s5 \<ge> 3
                                      then s5\<lparr>game_over := True\<rparr> else s5)
                            in (s6, Inr (state_dict s6)))))))"

definition get_current_state :: "GameState \<Rightarrow> GameState \<times> pydict" where
  "get_current_state st = (st, state_dict st)"

subsection \<open>Reading an outcome, and a sequence of rounds\<close>

text \<open>
  The two ways a round is scored, read off an outcome dictionary: the winner and the pair
  of score deltas.
\<close>

definition user_wins :: "pydict \<Rightarrow> bool" where
  "user_wins oc =
     (oc ''winner'' = Some (PStr ''user'') \<and>
      oc ''user_score_delta'' = Some (PInt 1) \<and>
      oc ''bot_score_delta'' = Some (PInt 0))"

definition bot_wins :: "pydict \<Rightarrow> bool" where
  "bot_wins oc =
     (oc ''winner'' = Some (PStr ''bot'') \<and>
      oc ''user_score_delta'' = Some (PInt 0) \<and>
      oc ''bot_score_delta'' = Some (PInt 1))"

text \<open>
  A sequence of calls of \<open>update_game_state\<close>, each with its moves and its outcome, on
  the state the call before left. An exception ends the sequence, as it would end the
  caller.
\<close>

fun apply_rounds :: "GameState \<Rightarrow> (string \<times> string \<times> pydict) list \<Rightarrow> error + GameState" where
  "apply_rounds st [] = Inr st"
| "apply_rounds st ((user_move, bot_move, outcome) # rs) =
     (case update_game_state st user_move bot_move outcome of
        (st', Inl e) \<Rightarrow> Inl e
      | (st', Inr d) \<Rightarrow> apply_rounds st' rs)"

section \<open>Properties\<close>

subsection \<open>Supporting lemmas\<close>

lemma resolve_deltas:
  "\<exists>ud bd. resolve_round_outcome u b ''user_score_delta'' = Some (PInt ud) \<and>
           resolve_round_outcome u b ''bot_score_delta'' = Some (PInt bd) \<and>
           (ud, bd) \<in> {(0, 0), (1, 0), (0, 1)}"
  by (simp add: resolve_round_outcome_def split: option.split)

lemma resolve_in_range:
  "resolve_round_outcome u b \<in> range (\<lambda>(u', b'). resolve_round_outcome u' b')"
  by (rule range_eqI [where x = "(u, b)"]) simp

text \<open>With integer deltas in the outcome, the update runs to its end.\<close>

lemma update_game_state_ok:
  assumes "oc ''user_score_delta'' = Some (PInt ud)"
    and "oc ''bot_score_delta'' = Some (PInt bd)"
  shows "update_game_state st u b oc =
     (let st' = \<lparr>round_number = round_number st + 1,
                 user_score = user_score st + ud,
                 bot_score = bot_score st + bd,
                 user_bomb_used = (user_bomb_used st \<or> u = ''bomb''),
                 bot_bomb_used = (bot_bomb_used st \<or> b = ''bomb''),
                 game_over = (game_over st \<or> round_number st + 1 \<ge> 3)\<rparr>
      in (st', Inr (state_dict st')))"
  using assms by (cases st) (simp add: update_game_state_def Let_def)

lemma update_game_state_resolved:
  assumes "oc \<in> range (\<lambda>(u', b'). resolve_round_outcome u' b')"
  shows "\<exists>ud bd. oc ''user_score_delta'' = Some (PInt ud) \<and>
           oc ''bot_score_delta'' = Some (PInt bd) \<and>
           (ud, bd) \<in> {(0, 0), (1, 0), (0, 1)}"
proof -
  from assms obtain u' b' where "oc = resolve_round_outcome u' b'"
    by auto
  then show ?thesis
    using resolve_deltas [of u' b'] by simp
qed

lemma apply_rounds_resolved:
  assumes "\<forall>(u, b, oc) \<in> set rs. oc \<in> range (\<lambda>(u', b'). resolve_round_outcome u' b')"
  shows "\<exists>st'. apply_rounds st rs = Inr st' \<and>
           round_number st' = round_number st + int (length rs) \<and>
           game_over st' = (game_over st \<or> (rs \<noteq> [] \<and> round_number st' \<ge> 3))"
  using assms
proof (induction rs arbitrary: st)
  case Nil
  then show ?case by simp
next
  case (Cons r rs)
  obtain u b oc where r: "r = (u, b, oc)"
    by (cases r) auto
  with Cons.prems have "oc \<in> range (\<lambda>(u', b'). resolve_round_outcome u' b')"
    by simp
  then obtain ud bd where d: "oc ''user_score_delta'' = Some (PInt ud)"
      "oc ''bot_score_delta'' = Some (PInt bd)"
    using update_game_state_resolved by blast
  define s1 where "s1 = fst (update_game_state st u b oc)"
  from update_game_state_ok [OF d, of st u b]
  have u: "update_game_state st u b oc = (s1, Inr (state_dict s1))"
    and n: "round_number s1 = round_number st + 1"
    and g: "game_over s1 = (game_over st \<or> round_number st + 1 \<ge> 3)"
    by (simp_all add: s1_def Let_def)
  from Cons.prems have "\<forall>(u, b, oc) \<in> set rs. oc \<in> range (\<lambda>(u', b'). resolve_round_outcome u' b')"
    by simp
  from Cons.IH [OF this, of s1] obtain st' where
    ih: "apply_rounds s1 rs = Inr st'"
      "round_number st' = round_number s1 + int (length rs)"
      "game_over st' = (game_over s1 \<or> (rs \<noteq> [] \<and> round_number st' \<ge> 3))"
    by blast
  from r u ih(1) have "apply_rounds st (r # rs) = Inr st'"
    by simp
  moreover from n ih(2) have "round_number st' = round_number st + int (length (r # rs))"
    by simp
  moreover have "game_over st' = (game_over st \<or> round_number st' \<ge> 3)"
  proof (cases rs)
    case Nil
    with ih(1) have "st' = s1" by simp
    with g n show ?thesis by simp
  next
    case (Cons a list)
    with ih(3) g n ih(2) show ?thesis by auto
  qed
  ultimately show ?case by simp
qed

subsection \<open>The model of \<open>str.strip\<close> and \<open>str.lower\<close>\<close>

text \<open>
  \<open>strip\<close> removes a run of white space at each end and nothing else: what is left
  neither starts nor ends with white space. \<open>lower\<close> keeps the length.
\<close>

lemma strip_decomp:
  "\<exists>pre post. s = pre @ strip s @ post \<and> (\<forall>c \<in> set pre. isspace c) \<and> (\<forall>c \<in> set post. isspace c)"
proof -
  let ?t = "dropWhile isspace s"
  have "strip s @ rev (takeWhile isspace (rev ?t)) =
          rev (takeWhile isspace (rev ?t) @ dropWhile isspace (rev ?t))"
    by (simp only: strip_def rev_append)
  also have "\<dots> = ?t"
    by (simp only: takeWhile_dropWhile_id rev_rev_ident)
  finally have t: "?t = strip s @ rev (takeWhile isspace (rev ?t))"
    by simp
  have "s = takeWhile isspace s @ ?t"
    by simp
  with t have "s = takeWhile isspace s @ strip s @ rev (takeWhile isspace (rev ?t))"
    by simp
  moreover have "\<forall>c \<in> set (takeWhile isspace s). isspace c"
    by (auto dest: set_takeWhileD)
  moreover have "\<forall>c \<in> set (rev (takeWhile isspace (rev ?t))). isspace c"
    by (auto dest: set_takeWhileD)
  ultimately show ?thesis
    by blast
qed

lemma strip_ends:
  assumes "strip s \<noteq> []"
  shows "\<not> isspace (hd (strip s)) \<and> \<not> isspace (last (strip s))"
proof -
  let ?t = "dropWhile isspace s"
  let ?r = "dropWhile isspace (rev ?t)"
  from assms have r: "?r \<noteq> []"
    by (simp add: strip_def)
  then have "\<not> isspace (hd ?r)"
    by (rule hd_dropWhile)
  with r have l: "\<not> isspace (last (strip s))"
    by (simp add: strip_def last_rev)
  from r have t: "?t \<noteq> []"
    by (metis dropWhile.simps(1) rev.simps(1))
  then have h: "\<not> isspace (hd ?t)"
    by (rule hd_dropWhile)
  have "hd (strip s) = hd ?t"
  proof -
    obtain post where "?t = strip s @ post"
      by (metis rev_append rev_rev_ident strip_def takeWhile_dropWhile_id)
    with assms show ?thesis by simp
  qed
  with h l show ?thesis by simp
qed

lemma lower_length: "length (lower s) = length s"
  by (simp add: lower_def)

lemma lower_strip_BOMB: "lower (strip ''BOMB '') = ''bomb''"
  by code_simp

lemma lower_strip_lizard: "lower (strip ''lizard'') = ''lizard''"
  by code_simp

lemma lower_strip_bomb: "lower (strip '' Bomb'') = ''bomb''"
  by code_simp

subsection \<open>The terminal state\<close>

text \<open>
  C1 (as stated, refuted): on a state whose \<open>game_over\<close> is already true,
  \<open>update_game_state\<close> is not rejected. After the third round of a game, a further call
  with \<open>rock\<close> against \<open>scissors\<close> returns the state dictionary, with
  \<open>round_number\<close> 4 and the user's score raised from 2 to 3.
\<close>

theorem update_game_state_terminal_counterexample:
  "game_over \<lparr>round_number = 3, user_score = 2, bot_score = 1,
               user_bomb_used = True, bot_bomb_used = False, game_over = True\<rparr> \<and>
   update_game_state
     \<lparr>round_number = 3, user_score = 2, bot_score = 1,
      user_bomb_used = True, bot_bomb_used = False, game_over = True\<rparr>
     ''rock'' ''scissors'' (resolve_round_outcome ''rock'' ''scissors'') =
   (\<lparr>round_number = 4, user_score = 3, bot_score = 1,
     user_bomb_used = True, bot_bomb_used = False, game_over = True\<rparr>,
    Inr (state_dict \<lparr>round_number = 4, user_score = 3, bot_score = 1,
                     user_bomb_used = True, bot_bomb_used = False, game_over = True\<rparr>))"
  by (simp add: resolve_round_outcome_def win_conditions_def update_game_state_def Let_def)

text \<open>
  C1 (amended): \<open>update_game_state\<close> has no guard on the terminal state. On a state
  whose \<open>game_over\<close> is true, with an outcome produced by \<open>resolve_round_outcome\<close>,
  it returns normally and updates the state as on any other: \<open>round_number\<close> is
  incremented by 1, the outcome's deltas are added to the scores, each bomb flag is set
  when that side's move is \<open>bomb\<close>, and \<open>game_over\<close> stays true.
\<close>

theorem update_game_state_terminal:
  assumes "game_over st"
    and "oc \<in> range (\<lambda>(u', b'). resolve_round_outcome u' b')"
  shows "\<exists>ud bd st'.
           oc ''user_score_delta'' = Some (PInt ud) \<and>
           oc ''bot_score_delta'' = Some (PInt bd) \<and>
           st' = \<lparr>round_number = round_number st + 1,
                  user_score = user_score st + ud,
                  bot_score = bot_score st + bd,
                  user_bomb_used = (user_bomb_used st \<or> u = ''bomb''),
                  bot_bomb_used = (bot_bomb_used st \<or> b = ''bomb''),
                  game_over = True\<rparr> \<and>
           update_game_state st u b oc = (st', Inr (state_dict st'))"
proof -
  from assms(2) obtain ud bd where d: "oc ''user_score_delta'' = Some (PInt ud)"
      "oc ''bot_score_delta'' = Some (PInt bd)"
    using update_game_state_resolved by blast
  from update_game_state_ok [OF d, of st u b] assms(1) d show ?thesis
    by (simp add: Let_def)
qed

theorem update_game_state_terminal_witness:
  "game_over \<lparr>round_number = 3, user_score = 2, bot_score = 1,
               user_bomb_used = True, bot_bomb_used = False, game_over = True\<rparr> \<and>
   resolve_round_outcome ''paper'' ''bomb'' \<in> range (\<lambda>(u', b'). resolve_round_outcome u' b') \<and>
   (\<exists>ud bd st'.
      resolve_round_outcome ''paper'' ''bomb'' ''user_score_delta'' = Some (PInt ud) \<and>
      resolve_round_outcome ''paper'' ''bomb'' ''bot_score_delta'' = Some (PInt bd) \<and>
      st' = \<lparr>round_number = 3 + 1, user_score = 2 + ud, bot_score = 1 + bd,
             user_bomb_used = True, bot_bomb_used = True, game_over = True\<rparr> \<and>
      update_game_state
        \<lparr>round_number = 3, user_score = 2, bot_score = 1,
         user_bomb_used = True, bot_bomb_used = False, game_over = True\<rparr>
        ''paper'' ''bomb'' (resolve_round_outcome ''paper'' ''bomb'') = (st', Inr (state_dict st')))"
proof -
  let ?st = "\<lparr>round_number = 3, user_score = 2, bot_score = 1,
               user_bomb_used = True, bot_bomb_used = False, game_over = True\<rparr>"
  have g: "game_over ?st"
    by simp
  have r: "resolve_round_outcome ''paper'' ''bomb'' \<in> range (\<lambda>(u', b'). resolve_round_outcome u' b')"
    by (rule resolve_in_range)
  show ?thesis
    using g r update_game_state_terminal [OF g r, of "''paper''" "''bomb''"]
    by simp
qed

subsection \<open>Outcome resolution\<close>

text \<open>
  C2: for every bot move \<open>X\<close>, canonical or not, \<open>resolve_round_outcome\<close> of
  \<open>invalid\<close> and \<open>X\<close> is the forfeit outcome: result \<open>invalid\<close>, winner
  \<open>bot\<close>, both score deltas 0 and the message "Invalid input. Round forfeited.".
  No other rule applies before it: the equation holds for \<open>X = invalid\<close> (no draw) and
  for \<open>X = bomb\<close> (no point for the bot) as well.
\<close>

theorem resolve_invalid_forfeits:
  "resolve_round_outcome ''invalid'' X =
     [''result'' \<mapsto> PStr ''invalid'',
      ''winner'' \<mapsto> PStr ''bot'',
      ''message'' \<mapsto> PStr ''Invalid input. Round forfeited.'',
      ''user_score_delta'' \<mapsto> PInt 0,
      ''bot_score_delta'' \<mapsto> PInt 0]"
  by (simp add: resolve_round_outcome_def)

text \<open>
  C3: \<open>bomb\<close> against \<open>bomb\<close> is a draw with deltas (0,0); for every canonical
  move \<open>X\<close> other than \<open>bomb\<close>, \<open>bomb\<close> against \<open>X\<close> is won by the user
  with deltas (1,0), and \<open>X\<close> against \<open>bomb\<close> is won by the bot with deltas (0,1).
\<close>

theorem resolve_bomb:
  assumes "X \<in> set valid_moves" and "X \<noteq> ''bomb''"
  shows "resolve_round_outcome ''bomb'' ''bomb'' ''result'' = Some (PStr ''draw'') \<and>
         resolve_round_outcome ''bomb'' ''bomb'' ''winner'' = Some (PStr ''none'') \<and>
         resolve_round_outcome ''bomb'' ''bomb'' ''user_score_delta'' = Some (PInt 0) \<and>
         resolve_round_outcome ''bomb'' ''bomb'' ''bot_score_delta'' = Some (PInt 0) \<and>
         user_wins (resolve_round_outcome ''bomb'' X) \<and>
         bot_wins (resolve_round_outcome X ''bomb'')"
proof -
  from assms have "X \<noteq> ''invalid''"
    by (auto simp: valid_moves_def)
  with assms(2) show ?thesis
    by (simp add: resolve_round_outcome_def user_wins_def bot_wins_def)
qed

theorem resolve_bomb_witness:
  "''scissors'' \<in> set valid_moves \<and> ''scissors'' \<noteq> ''bomb'' \<and>
   user_wins (resolve_round_outcome ''bomb'' ''scissors'') \<and>
   bot_wins (resolve_round_outcome ''scissors'' ''bomb'')"
proof -
  have h1: "''scissors'' \<in> set valid_moves"
    by (simp add: valid_moves_def)
  have h2: "''scissors'' \<noteq> ''bomb''"
    by simp
  show ?thesis
    using h1 h2 resolve_bomb [OF h1 h2] by simp
qed

text \<open>
  C4: for two distinct canonical moves \<open>a\<close> and \<open>b\<close>, neither of them \<open>bomb\<close>,
  exactly one of the two orders is won by the user with deltas (1,0) and the other by
  the bot with deltas (0,1); the user wins the order that is one of rock against
  scissors, scissors against paper, paper against rock.
\<close>

theorem resolve_rps_asymmetric:
  assumes "a \<in> set valid_moves" and "a \<noteq> ''bomb''"
    and "b \<in> set valid_moves" and "b \<noteq> ''bomb''"
    and "a \<noteq> b"
  shows "(user_wins (resolve_round_outcome a b) \<and> bot_wins (resolve_round_outcome b a) \<and>
          \<not> bot_wins (resolve_round_outcome a b) \<and> \<not> user_wins (resolve_round_outcome b a) \<and>
          (a, b) \<in> {(''rock'', ''scissors''), (''scissors'', ''paper''), (''paper'', ''rock'')})
       \<or> (bot_wins (resolve_round_outcome a b) \<and> user_wins (resolve_round_outcome b a) \<and>
          \<not> user_wins (resolve_round_outcome a b) \<and> \<not> bot_wins (resolve_round_outcome b a) \<and>
          (b, a) \<in> {(''rock'', ''scissors''), (''scissors'', ''paper''), (''paper'', ''rock'')})"
proof -
  from assms(1,2) have a: "a = ''rock'' \<or> a = ''paper'' \<or> a = ''scissors''"
    by (auto simp: valid_moves_def)
  from assms(3,4) have b: "b = ''rock'' \<or> b = ''paper'' \<or> b = ''scissors''"
    by (auto simp: valid_moves_def)
  from a b assms(5) show ?thesis
    by (elim disjE)
       (simp_all add: resolve_round_outcome_def win_conditions_def user_wins_def bot_wins_def)
qed

theorem resolve_rps_asymmetric_witness:
  "''rock'' \<in> set valid_moves \<and> ''rock'' \<noteq> ''bomb'' \<and>
   ''paper'' \<in> set valid_moves \<and> ''paper'' \<noteq> ''bomb'' \<and> ''rock'' \<noteq> ''paper'' \<and>
   bot_wins (resolve_round_outcome ''rock'' ''paper'') \<and>
   user_wins (resolve_round_outcome ''paper'' ''rock'') \<and>
   \<not> user_wins (resolve_round_outcome ''rock'' ''paper'') \<and>
   \<not> bot_wins (resolve_round_outcome ''paper'' ''rock'')"
proof -
  have h1: "''rock'' \<in> set valid_moves" and h2: "''rock'' \<noteq> ''bomb''"
    and h3: "''paper'' \<in> set valid_moves" and h4: "''paper'' \<noteq> ''bomb''"
    and h5: "''rock'' \<noteq> ''paper''"
    by (simp_all add: valid_moves_def)
  show ?thesis
    using h1 h2 h3 h4 h5 resolve_rps_asymmetric [OF h1 h2 h3 h4 h5] by simp
qed

text \<open>
  C10: \<open>resolve_round_outcome\<close> returns an outcome for every pair of strings, and
  its pair of deltas is (0,0), (1,0) or (0,1). Two distinct strings, the user's neither
  \<open>invalid\<close> nor \<open>bomb\<close>, the bot's not \<open>bomb\<close>, and not one of the three pairs
  the user wins, reach the last branch: the bot wins with deltas (0,1), also when a
  string is no move at all.
\<close>

theorem resolve_total:
  "(resolve_round_outcome u b ''user_score_delta'', resolve_round_outcome u b ''bot_score_delta'')
      \<in> {(Some (PInt 0), Some (PInt 0)), (Some (PInt 1), Some (PInt 0)), (Some (PInt 0), Some (PInt 1))} \<and>
   (u \<noteq> b \<and> u \<noteq> ''invalid'' \<and> u \<noteq> ''bomb'' \<and> b \<noteq> ''bomb'' \<and>
    (u, b) \<notin> {(''rock'', ''scissors''), (''scissors'', ''paper''), (''paper'', ''rock'')}
    \<longrightarrow> resolve_round_outcome u b =
          [''result'' \<mapsto> PStr ''win'',
           ''winner'' \<mapsto> PStr ''bot'',
           ''message'' \<mapsto> PStr ''Bot wins this round.'',
           ''user_score_delta'' \<mapsto> PInt 0,
           ''bot_score_delta'' \<mapsto> PInt 1] \<and>
        bot_wins (resolve_round_outcome u b))"
proof (intro conjI impI)
  show "(resolve_round_outcome u b ''user_score_delta'', resolve_round_outcome u b ''bot_score_delta'')
      \<in> {(Some (PInt 0), Some (PInt 0)), (Some (PInt 1), Some (PInt 0)), (Some (PInt 0), Some (PInt 1))}"
    using resolve_deltas [of u b] by auto
next
  assume h: "u \<noteq> b \<and> u \<noteq> ''invalid'' \<and> u \<noteq> ''bomb'' \<and> b \<noteq> ''bomb'' \<and>
    (u, b) \<notin> {(''rock'', ''scissors''), (''scissors'', ''paper''), (''paper'', ''rock'')}"
  then have "win_conditions (u, b) = None"
    by (auto simp: win_conditions_def)
  with h show "resolve_round_outcome u b =
          [''result'' \<mapsto> PStr ''win'',
           ''winner'' \<mapsto> PStr ''bot'',
           ''message'' \<mapsto> PStr ''Bot wins this round.'',
           ''user_score_delta'' \<mapsto> PInt 0,
           ''bot_score_delta'' \<mapsto> PInt 1]"
    by (simp add: resolve_round_outcome_def)
  then show "bot_wins (resolve_round_outcome u b)"
    by (simp add: bot_wins_def)
qed

theorem resolve_total_witness:
  "''rock'' \<noteq> ''lizard'' \<and> ''rock'' \<noteq> ''invalid'' \<and> ''rock'' \<noteq> ''bomb'' \<and>
   ''lizard'' \<noteq> ''bomb'' \<and>
   (''rock'', ''lizard'') \<notin>
     {(''rock'', ''scissors''), (''scissors'', ''paper''), (''paper'', ''rock'')} \<and>
   bot_wins (resolve_round_outcome ''rock'' ''lizard'')"
proof -
  have h: "''rock'' \<noteq> ''lizard'' \<and> ''rock'' \<noteq> ''invalid'' \<and> ''rock'' \<noteq> ''bomb'' \<and>
      ''lizard'' \<noteq> ''bomb'' \<and>
      (''rock'', ''lizard'') \<notin>
        {(''rock'', ''scissors''), (''scissors'', ''paper''), (''paper'', ''rock'')}"
    by simp
  with resolve_total [of "''rock''" "''lizard''"]
  have "bot_wins (resolve_round_outcome ''rock'' ''lizard'')"
    by blast
  with h show ?thesis
    by blast
qed

subsection \<open>Validation\<close>

text \<open>
  C5: \<open>validate_and_normalize_input\<close> decides on the input stripped of white space
  and lowercased. When that text is not one of rock, paper, scissors, bomb, the result
  is \<open>invalid\<close> with the message "Invalid move. Must be one of: rock, paper, scissors,
  bomb."; when it is \<open>bomb\<close> and the user's bomb is used, the result is \<open>invalid\<close>
  with the message "Bomb already used. Cannot use bomb again."; in every other case
  the result is the normalized text with status \<open>valid\<close>. In particular "BOMB " with
  the bomb unused gives \<open>bomb\<close>.
\<close>

theorem validate_and_normalize_input_spec:
  "(lower (strip raw) \<notin> set valid_moves \<longrightarrow>
      snd (validate_and_normalize_input st raw) =
        [''normalized_move'' \<mapsto> PStr ''invalid'',
         ''status'' \<mapsto> PStr ''Invalid move. Must be one of: rock, paper, scissors, bomb.'']) \<and>
   (lower (strip raw) = ''bomb'' \<and> user_bomb_used st \<longrightarrow>
      snd (validate_and_normalize_input st raw) =
        [''normalized_move'' \<mapsto> PStr ''invalid'',
         ''status'' \<mapsto> PStr ''Bomb already used. Cannot use bomb again.'']) \<and>
   (lower (strip raw) \<in> set valid_moves \<and> \<not> (lower (strip raw) = ''bomb'' \<and> user_bomb_used st) \<longrightarrow>
      snd (validate_and_normalize_input st raw) =
        [''normalized_move'' \<mapsto> PStr (lower (strip raw)),
         ''status'' \<mapsto> PStr ''valid'']) \<and>
   (\<not> user_bomb_used st \<longrightarrow>
      snd (validate_and_normalize_input st ''BOMB '') =
        [''normalized_move'' \<mapsto> PStr ''bomb'', ''status'' \<mapsto> PStr ''valid''])"
proof (intro conjI impI)
  assume "lower (strip raw) \<notin> set valid_moves"
  then show "snd (validate_and_normalize_input st raw) =
        [''normalized_move'' \<mapsto> PStr ''invalid'',
         ''status'' \<mapsto> PStr ''Invalid move. Must be one of: rock, paper, scissors, bomb.'']"
    by (simp add: validate_and_normalize_input_def Let_def)
next
  assume "lower (strip raw) = ''bomb'' \<and> user_bomb_used st"
  then show "snd (validate_and_normalize_input st raw) =
        [''normalized_move'' \<mapsto> PStr ''invalid'',
         ''status'' \<mapsto> PStr ''Bomb already used. Cannot use bomb again.'']"
    by (simp add: validate_and_normalize_input_def Let_def valid_moves_def)
next
  assume "lower (strip raw) \<in> set valid_moves \<and> \<not> (lower (strip raw) = ''bomb'' \<and> user_bomb_used st)"
  then show "snd (validate_and_normalize_input st raw) =
        [''normalized_move'' \<mapsto> PStr (lower (strip raw)),
         ''status'' \<mapsto> PStr ''valid'']"
    by (auto simp: validate_and_normalize_input_def Let_def)
next
  assume "\<not> user_bomb_used st"
  then show "snd (validate_and_normalize_input st ''BOMB '') =
        [''normalized_move'' \<mapsto> PStr ''bomb'', ''status'' \<mapsto> PStr ''valid'']"
    by (simp add: validate_and_normalize_input_def Let_def lower_strip_BOMB valid_moves_def)
qed

theorem validate_and_normalize_input_spec_witness:
  "lower (strip ''lizard'') \<notin> set valid_moves \<and>
   snd (validate_and_normalize_input new_GameState ''lizard'') =
     [''normalized_move'' \<mapsto> PStr ''invalid'',
      ''status'' \<mapsto> PStr ''Invalid move. Must be one of: rock, paper, scissors, bomb.''] \<and>
   lower (strip '' Bomb'') = ''bomb'' \<and> user_bomb_used (new_GameState\<lparr>user_bomb_used := True\<rparr>) \<and>
   snd (validate_and_normalize_input (new_GameState\<lparr>user_bomb_used := True\<rparr>) '' Bomb'') =
     [''normalized_move'' \<mapsto> PStr ''invalid'',
      ''status'' \<mapsto> PStr ''Bomb already used. Cannot use bomb again.''] \<and>
   lower (strip '' Bomb'') \<in> set valid_moves \<and> \<not> user_bomb_used new_GameState \<and>
   snd (validate_and_normalize_input new_GameState '' Bomb'') =
     [''normalized_move'' \<mapsto> PStr ''bomb'', ''status'' \<mapsto> PStr ''valid''] \<and>
   snd (validate_and_normalize_input new_GameState ''BOMB '') =
     [''normalized_move'' \<mapsto> PStr ''bomb'', ''status'' \<mapsto> PStr ''valid'']"
  using validate_and_normalize_input_spec [of "''lizard''" new_GameState]
    validate_and_normalize_input_spec [of "'' Bomb''" "new_GameState\<lparr>user_bomb_used := True\<rparr>"]
    validate_and_normalize_input_spec [of "'' Bomb''" new_GameState]
  by (simp add: lower_strip_lizard lower_strip_bomb valid_moves_def new_GameState_def)

text \<open>
  C8: \<open>validate_and_normalize_input\<close> leaves the game state as it was, and on two
  states with the same \<open>user_bomb_used\<close> it returns the same dictionary (normalized move
  and status) for the same raw input.
\<close>

theorem validate_and_normalize_input_pure:
  assumes "user_bomb_used s1 = user_bomb_used s2"
  shows "snd (validate_and_normalize_input s1 raw) = snd (validate_and_normalize_input s2 raw) \<and>
         fst (validate_and_normalize_input s1 raw) = s1 \<and>
         fst (validate_and_normalize_input s2 raw) = s2"
  using assms by (simp add: validate_and_normalize_input_def Let_def)

theorem validate_and_normalize_input_pure_witness:
  "user_bomb_used new_GameState =
     user_bomb_used \<lparr>round_number = 2, user_score = 1, bot_score = 1,
                     user_bomb_used = False, bot_bomb_used = True, game_over = False\<rparr> \<and>
   snd (validate_and_normalize_input new_GameState ''bomb'') =
     snd (validate_and_normalize_input
           \<lparr>round_number = 2, user_score = 1, bot_score = 1,
            user_bomb_used = False, bot_bomb_used = True, game_over = False\<rparr> ''bomb'') \<and>
   fst (validate_and_normalize_input new_GameState ''bomb'') = new_GameState"
proof -
  have h: "user_bomb_used new_GameState =
     user_bomb_used \<lparr>round_number = 2, user_score = 1, bot_score = 1,
                     user_bomb_used = False, bot_bomb_used = True, game_over = False\<rparr>"
    by (simp add: new_GameState_def)
  show ?thesis
    using h validate_and_normalize_input_pure [OF h, of "''bomb''"] by simp
qed

subsection \<open>State update\<close>

text \<open>
  C6: from a fresh state, three calls of \<open>update_game_state\<close>, with any moves and
  with outcomes produced by \<open>resolve_round_outcome\<close>, all return and leave
  \<open>round_number\<close> 3 and \<open>game_over\<close> true; fewer than three calls leave
  \<open>game_over\<close> false.
\<close>

theorem three_rounds_end_game:
  assumes "\<forall>(u, b, oc) \<in> set rs. oc \<in> range (\<lambda>(u', b'). resolve_round_outcome u' b')"
  shows "\<exists>st. apply_rounds new_GameState rs = Inr st \<and>
           (length rs = 3 \<longrightarrow> round_number st = 3 \<and> game_over st) \<and>
           (length rs < 3 \<longrightarrow> \<not> game_over st)"
proof -
  from apply_rounds_resolved [OF assms, of new_GameState] obtain st where
    st: "apply_rounds new_GameState rs = Inr st"
      "round_number st = round_number new_GameState + int (length rs)"
      "game_over st = (game_over new_GameState \<or> (rs \<noteq> [] \<and> round_number st \<ge> 3))"
    by blast
  then have "round_number st = int (length rs)"
    and "game_over st = (rs \<noteq> [] \<and> 3 \<le> int (length rs))"
    by (simp_all add: new_GameState_def)
  with st(1) show ?thesis
    by auto
qed

theorem three_rounds_end_game_witness:
  "(\<exists>st. apply_rounds new_GameState
           [(''rock'', ''paper'', resolve_round_outcome ''rock'' ''paper''),
            (''bomb'', ''bomb'', resolve_round_outcome ''bomb'' ''bomb''),
            (''invalid'', ''rock'', resolve_round_outcome ''invalid'' ''rock'')] = Inr st \<and>
         round_number st = 3 \<and> game_over st) \<and>
   (\<exists>st. apply_rounds new_GameState
           [(''rock'', ''paper'', resolve_round_outcome ''rock'' ''paper''),
            (''bomb'', ''bomb'', resolve_round_outcome ''bomb'' ''bomb'')] = Inr st \<and>
         \<not> game_over st)"
proof -
  have h3: "\<forall>(u, b, oc) \<in> set [(''rock'', ''paper'', resolve_round_outcome ''rock'' ''paper''),
                       (''bomb'', ''bomb'', resolve_round_outcome ''bomb'' ''bomb''),
                       (''invalid'', ''rock'', resolve_round_outcome ''invalid'' ''rock'')].
      oc \<in> range (\<lambda>(u', b'). resolve_round_outcome u' b')"
    by (simp add: resolve_in_range)
  have h2: "\<forall>(u, b, oc) \<in> set [(''rock'', ''paper'', resolve_round_outcome ''rock'' ''paper''),
                       (''bomb'', ''bomb'', resolve_round_outcome ''bomb'' ''bomb'')].
      oc \<in> range (\<lambda>(u', b'). resolve_round_outcome u' b')"
    by (simp add: resolve_in_range)
  show ?thesis
    using three_rounds_end_game [OF h3] three_rounds_end_game [OF h2]
    by (simp del: apply_rounds.simps)
qed

text \<open>
  C7: a bomb flag that is true before \<open>update_game_state\<close> is true after it, whatever
  the arguments (also when the call raises). When the call returns, each flag is true
  afterwards exactly when it was true before or that side's move is \<open>bomb\<close>; and the
  call returns for every outcome produced by \<open>resolve_round_outcome\<close>.
\<close>

theorem bomb_flags_monotonic:
  "(user_bomb_used st \<longrightarrow> user_bomb_used (fst (update_game_state st u b oc))) \<and>
   (bot_bomb_used st \<longrightarrow> bot_bomb_used (fst (update_game_state st u b oc))) \<and>
   ((\<exists>d. snd (update_game_state st u b oc) = Inr d) \<longrightarrow>
      user_bomb_used (fst (update_game_state st u b oc)) = (user_bomb_used st \<or> u = ''bomb'') \<and>
      bot_bomb_used (fst (update_game_state st u b oc)) = (bot_bomb_used st \<or> b = ''bomb'')) \<and>
   (oc \<in> range (\<lambda>(u', b'). resolve_round_outcome u' b') \<longrightarrow>
      (\<exists>d. snd (update_game_state st u b oc) = Inr d))"
proof (intro conjI impI)
  show "user_bomb_used (fst (update_game_state st u b oc))" if "user_bomb_used st"
    using that by (simp add: update_game_state_def Let_def split: option.split sum.split)
  show "bot_bomb_used (fst (update_game_state st u b oc))" if "bot_bomb_used st"
    using that by (simp add: update_game_state_def Let_def split: option.split sum.split)
  show "user_bomb_used (fst (update_game_state st u b oc)) = (user_bomb_used st \<or> u = ''bomb'')"
    if "\<exists>d. snd (update_game_state st u b oc) = Inr d"
    using that by (auto simp: update_game_state_def Let_def split: option.splits sum.splits)
  show "bot_bomb_used (fst (update_game_state st u b oc)) = (bot_bomb_used st \<or> b = ''bomb'')"
    if "\<exists>d. snd (update_game_state st u b oc) = Inr d"
    using that by (auto simp: update_game_state_def Let_def split: option.splits sum.splits)
  show "\<exists>d. snd (update_game_state st u b oc) = Inr d"
    if "oc \<in> range (\<lambda>(u', b'). resolve_round_outcome u' b')"
  proof -
    from that obtain ud bd where d: "oc ''user_score_delta'' = Some (PInt ud)"
      "oc ''bot_score_delta'' = Some (PInt bd)"
      using update_game_state_resolved by blast
    from update_game_state_ok [OF d, of st u b] show ?thesis
      by (simp add: Let_def)
  qed
qed

theorem bomb_flags_monotonic_witness:
  "user_bomb_used \<lparr>round_number = 1, user_score = 0, bot_score = 0,
                    user_bomb_used = True, bot_bomb_used = True, game_over = False\<rparr> \<and>
   bot_bomb_used \<lparr>round_number = 1, user_score = 0, bot_score = 0,
                   user_bomb_used = True, bot_bomb_used = True, game_over = False\<rparr> \<and>
   user_bomb_used (fst (update_game_state
      \<lparr>round_number = 1, user_score = 0, bot_score = 0,
       user_bomb_used = True, bot_bomb_used = True, game_over = False\<rparr>
      ''rock'' ''paper'' (resolve_round_outcome ''rock'' ''paper''))) \<and>
   bot_bomb_used (fst (update_game_state
      \<lparr>round_number = 1, user_score = 0, bot_score = 0,
       user_bomb_used = True, bot_bomb_used = True, game_over = False\<rparr>
      ''rock'' ''paper'' (resolve_round_outcome ''rock'' ''paper''))) \<and>
   resolve_round_outcome ''bomb'' ''rock'' \<in> range (\<lambda>(u', b'). resolve_round_outcome u' b') \<and>
   (\<exists>d. snd (update_game_state new_GameState ''bomb'' ''rock''
              (resolve_round_outcome ''bomb'' ''rock'')) = Inr d) \<and>
   user_bomb_used (fst (update_game_state new_GameState ''bomb'' ''rock''
      (resolve_round_outcome ''bomb'' ''rock''))) \<and>
   \<not> bot_bomb_used (fst (update_game_state new_GameState ''bomb'' ''rock''
      (resolve_round_outcome ''bomb'' ''rock'')))"
proof -
  let ?st = "\<lparr>round_number = 1, user_score = 0, bot_score = 0,
               user_bomb_used = True, bot_bomb_used = True, game_over = False\<rparr>"
  have a: "user_bomb_used ?st" "bot_bomb_used ?st"
    by simp_all
  have r: "resolve_round_outcome ''bomb'' ''rock'' \<in> range (\<lambda>(u', b'). resolve_round_outcome u' b')"
    by (rule resolve_in_range)
  have n: "\<not> user_bomb_used new_GameState" "\<not> bot_bomb_used new_GameState" "''rock'' \<noteq> ''bomb''"
    by (simp_all add: new_GameState_def)
  from a bomb_flags_monotonic [of ?st "''rock''" "''paper''" "resolve_round_outcome ''rock'' ''paper''"]
  have 1: "user_bomb_used (fst (update_game_state ?st ''rock'' ''paper''
               (resolve_round_outcome ''rock'' ''paper'')))"
    and 2: "bot_bomb_used (fst (update_game_state ?st ''rock'' ''paper''
               (resolve_round_outcome ''rock'' ''paper'')))"
    by blast+
  from r n bomb_flags_monotonic [of new_GameState "''bomb''" "''rock''"
      "resolve_round_outcome ''bomb'' ''rock''"]
  have 3: "\<exists>d. snd (update_game_state new_GameState ''bomb'' ''rock''
              (resolve_round_outcome ''bomb'' ''rock'')) = Inr d"
    and 4: "user_bomb_used (fst (update_game_state new_GameState ''bomb'' ''rock''
      (resolve_round_outcome ''bomb'' ''rock'')))"
    and 5: "\<not> bot_bomb_used (fst (update_game_state new_GameState ''bomb'' ''rock''
      (resolve_round_outcome ''bomb'' ''rock'')))"
    by blast+
  from a r 1 2 3 4 5 show ?thesis
    by blast
qed

subsection \<open>A game of three rounds\<close>

text \<open>
  C9 (as stated, refuted): the user's rock, paper, bomb against the bot's scissors, rock,
  rock. The second round is paper against rock, which the user wins: the score after it
  is 2-0, not 1-1, and the final state is not the one with scores 2 and 1.
\<close>

theorem scenario_rock_paper_bomb_counterexample:
  "user_wins (resolve_round_outcome ''paper'' ''rock'') \<and>
   \<not> bot_wins (resolve_round_outcome ''paper'' ''rock'') \<and>
   fst (update_game_state
         (fst (update_game_state new_GameState ''rock'' ''scissors''
                 (resolve_round_outcome ''rock'' ''scissors'')))
         ''paper'' ''rock'' (resolve_round_outcome ''paper'' ''rock'')) =
     \<lparr>round_number = 2, user_score = 2, bot_score = 0,
      user_bomb_used = False, bot_bomb_used = False, game_over = False\<rparr> \<and>
   fst (update_game_state
         (fst (update_game_state
                 (fst (update_game_state new_GameState ''rock'' ''scissors''
                         (resolve_round_outcome ''rock'' ''scissors'')))
                 ''paper'' ''rock'' (resolve_round_outcome ''paper'' ''rock'')))
         ''bomb'' ''rock'' (resolve_round_outcome ''bomb'' ''rock'')) \<noteq>
     \<lparr>round_number = 3, user_score = 2, bot_score = 1,
      user_bomb_used = True, bot_bomb_used = False, game_over = True\<rparr>"
  by (simp add: resolve_round_outcome_def win_conditions_def update_game_state_def
      new_GameState_def user_wins_def bot_wins_def Let_def)

text \<open>
  C9 (amended): in that game the user wins round 1 (1-0), wins round 2 with paper
  against rock (2-0) and wins round 3 with the bomb (3-0); the final state has
  \<open>round_number\<close> 3, \<open>user_score\<close> 3, \<open>bot_score\<close> 0, \<open>user_bomb_used\<close> true,
  \<open>bot_bomb_used\<close> false and \<open>game_over\<close> true.
\<close>

theorem scenario_rock_paper_bomb:
  "(let o1 = resolve_round_outcome ''rock'' ''scissors'';
        (s1, r1) = update_game_state new_GameState ''rock'' ''scissors'' o1;
        o2 = resolve_round_outcome ''paper'' ''rock'';
        (s2, r2) = update_game_state s1 ''paper'' ''rock'' o2;
        o3 = resolve_round_outcome ''bomb'' ''rock'';
        (s3, r3) = update_game_state s2 ''bomb'' ''rock'' o3
    in user_wins o1 \<and> user_score s1 = 1 \<and> bot_score s1 = 0 \<and>
       user_wins o2 \<and> user_score s2 = 2 \<and> bot_score s2 = 0 \<and>
       user_wins o3 \<and>
       o3 ''message'' = Some (PStr ''User wins this round (bomb beats all).'') \<and>
       s3 = \<lparr>round_number = 3, user_score = 3, bot_score = 0,
             user_bomb_used = True, bot_bomb_used = False, game_over = True\<rparr> \<and>
       r3 = Inr (state_dict s3))"
  by (simp add: resolve_round_outcome_def win_conditions_def update_game_state_def
      new_GameState_def user_wins_def bot_wins_def Let_def)

end
